theory Spec2Isabelle
  imports Complex_Main
begin

section \<open>Flight passenger predictions: windowing, split, training loop, evaluation\<close>

text \<open>
  The notebook works on a NumPy array of shape \<open>(N, 1)\<close>: one column, read with
  \<^verbatim>\<open>usecols=[1]\<close>. Every access to it selects column \<open>0\<close> or all columns, so the
  array is represented by the list of its column-0 entries, in row order. The element
  type is left open for the windowing code, which only moves values around.
\<close>

subsection \<open>Python primitives\<close>

datatype py_error = IndexError | ValueError | RuntimeError

text \<open>\<^verbatim>\<open>xs[lo:hi]\<close> for non-negative bounds: both bounds are clipped to the length.\<close>

definition py_slice :: "'a list \<Rightarrow> nat \<Rightarrow> nat \<Rightarrow> 'a list" where
  "py_slice xs lo hi = take (hi - lo) (drop lo xs)"

text \<open>\<^verbatim>\<open>xs[i]\<close> for a non-negative index: out of range raises.\<close>

definition py_index :: "'a list \<Rightarrow> nat \<Rightarrow> py_error + 'a" where
  "py_index xs i = (if i < length xs then Inr (xs ! i) else Inl IndexError)"

text \<open>\<^verbatim>\<open>range(n)\<close> for a Python integer \<open>n\<close>: empty when \<open>n\<close> is not positive.\<close>

definition py_range :: "int \<Rightarrow> nat list" where
  "py_range n = [0 ..< nat n]"

subsection \<open>The windowing transform\<close>

text \<open>
  \<^verbatim>\<open>
  def create_dataset(dataset, look_back=1):
      dataX, dataY = [], []
      for i in range(len(dataset)-look_back-1):
          a = dataset[i:(i+look_back), 0]
          dataX.append(a)
          dataY.append(dataset[i + look_back, 0])
      return np.array(dataX), np.array(dataY)
  \<close>
  The loop is a recursion over the indices that remain, with the two lists as
  accumulators. The window length is a natural number; the bound of the range is
  computed on Python integers and may be negative.
\<close>

fun create_dataset_loop ::
  "'a list \<Rightarrow> nat \<Rightarrow> nat list \<Rightarrow> 'a list list \<times> 'a list \<Rightarrow> py_error + ('a list list \<times> 'a list)"
where
  "create_dataset_loop dataset look_back [] (dataX, dataY) = Inr (dataX, dataY)"
| "create_dataset_loop dataset look_back (i # rest) (dataX, dataY) =
     (let a = py_slice dataset i (i + look_back) in
      case py_index dataset (i + look_back) of
        Inl e \<Rightarrow> Inl e
      | Inr y \<Rightarrow> create_dataset_loop dataset look_back rest (dataX @ [a], dataY @ [y]))"

definition create_dataset :: "'a list \<Rightarrow> nat \<Rightarrow> py_error + ('a list list \<times> 'a list)" where
  "create_dataset dataset look_back =
     create_dataset_loop dataset look_back
       (py_range (int (length dataset) - int look_back - 1)) ([], [])"

subsection \<open>Train/test split and windowed partitions\<close>

text \<open>
  \<^verbatim>\<open>
  train_size = int(len(dataset) * 0.67)
  test_size = len(dataset) - train_size
  train, test = dataset[0:train_size,:], dataset[train_size:len(dataset),:]
  \<close>
  The product with \<open>0.67\<close> is computed in floating point and truncated; \<open>train_size\<close>
  is its exact-arithmetic reading, \<open>\<lfloor>67 * n / 100\<rfloor>\<close>. The split itself is defined for
  any split point, and the properties below are proved for every split point.
\<close>

definition train_size :: "nat \<Rightarrow> nat" where
  "train_size n = (n * 67) div 100"

definition test_size :: "nat \<Rightarrow> nat" where
  "test_size n = n - train_size n"

definition split_dataset :: "nat \<Rightarrow> 'a list \<Rightarrow> 'a list \<times> 'a list" where
  "split_dataset k dataset = (py_slice dataset 0 k, py_slice dataset k (length dataset))"

text \<open>
  \<^verbatim>\<open>
  trainX, trainY = create_dataset(train, look_back)
  testX, testY = create_dataset(test, look_back)
  trainX = np.reshape(trainX, (trainX.shape[0], trainX.shape[1], 1))
  testX = np.reshape(testX, (testX.shape[0], testX.shape[1], 1))
  \<close>
  \<^verbatim>\<open>np.array([])\<close> is one-dimensional, so \<^verbatim>\<open>shape[1]\<close> raises when no window was
  produced. The trailing axis of size one is not represented.
\<close>

record 'a prepared =
  train :: "'a list"
  test :: "'a list"
  trainX :: "'a list list"
  trainY :: "'a list"
  testX :: "'a list list"
  testY :: "'a list"

definition reshape_samples :: "'a list list \<Rightarrow> py_error + 'a list list" where
  "reshape_samples X = (if X = [] then Inl IndexError else Inr X)"

definition prepare :: "nat \<Rightarrow> 'a list \<Rightarrow> nat \<Rightarrow> py_error + 'a prepared" where
  "prepare k dataset look_back =
     (case split_dataset k dataset of (tr, te) \<Rightarrow>
      case create_dataset tr look_back of Inl e \<Rightarrow> Inl e | Inr (trX, trY) \<Rightarrow>
      case create_dataset te look_back of Inl e \<Rightarrow> Inl e | Inr (teX, teY) \<Rightarrow>
      case reshape_samples trX of Inl e \<Rightarrow> Inl e | Inr trX' \<Rightarrow>
      case reshape_samples teX of Inl e \<Rightarrow> Inl e | Inr teX' \<Rightarrow>
      Inr \<lparr>train = tr, test = te, trainX = trX', trainY = trY, testX = teX', testY = teY\<rparr>)"

subsection \<open>The model and the library operations it calls\<close>

text \<open>
  \<^verbatim>\<open>
  class Net(nn.Module):
      def __init__(self, hidden_size=7):
          self.lstm = nn.LSTM(input_size=1, hidden_size=hidden_size, batch_first=True)
          self.linear = nn.Linear(hidden_size, 1)
      def forward(self, x):
          x, _ = self.lstm(x)
          x = x[:, -1, :]
          x = self.linear(x)
          return x
  \<close>
  The parameters of the two layers are the fields of \<open>net\<close>. What the libraries
  compute is not part of the notebook: the recurrent cell, the linear map, the gradient
  of the loss, the Adam update, the scaler's inverse and the number formatting are
  parameters of the model, collected in \<open>library\<close>. The recurrent layer applies the
  cell to one time step after the other and returns the hidden state after each step.
\<close>

record ('lw, 'vw) net =
  lstm :: 'lw
  linear_layer :: 'vw

record ('lw, 'vw, 'h, 'g, 'o) library =
  lstm_cell :: "'lw \<Rightarrow> real \<Rightarrow> 'h \<Rightarrow> 'h"
  lstm_init :: 'h
  linear_forward :: "'vw \<Rightarrow> 'h \<Rightarrow> real"
  backward :: "('lw, 'vw) net \<Rightarrow> real list list \<Rightarrow> real list \<Rightarrow> 'g \<Rightarrow> 'g"
  adam_step :: "('lw, 'vw) net \<Rightarrow> 'g \<Rightarrow> 'o \<Rightarrow> ('lw, 'vw) net \<times> 'o"
  zero_grad :: "'g \<Rightarrow> 'g"
  inverse_transform :: "real \<Rightarrow> real"
  format_2f :: "real \<Rightarrow> string"

fun lstm_run :: "('lw \<Rightarrow> real \<Rightarrow> 'h \<Rightarrow> 'h) \<Rightarrow> 'lw \<Rightarrow> 'h \<Rightarrow> real list \<Rightarrow> 'h list" where
  "lstm_run cell w h [] = []"
| "lstm_run cell w h (x # xs) = (let h' = cell w x h in h' # lstm_run cell w h' xs)"

text \<open>
  \<^verbatim>\<open>self.lstm(x)\<close>: the recurrent layer rejects an input whose time axis is empty
  with a RuntimeError, and otherwise runs the cell over every sample of the batch.
\<close>

definition lstm_layer ::
  "('lw, 'vw, 'h, 'g, 'o) library \<Rightarrow> 'lw \<Rightarrow> real list list \<Rightarrow> py_error + 'h list list"
where
  "lstm_layer lib w x =
     (if [] \<in> set x then Inl RuntimeError
      else Inr (map (lstm_run (lstm_cell lib) w (lstm_init lib)) x))"

text \<open>
  \<^verbatim>\<open>x[:, -1, :]\<close> takes the hidden state after the last time step and raises when
  the time axis of the layer's output is empty.
\<close>

definition forward ::
  "('lw, 'vw, 'h, 'g, 'o) library \<Rightarrow> ('lw, 'vw) net \<Rightarrow> real list list \<Rightarrow> py_error + real list"
where
  "forward lib self x =
     (case lstm_layer lib (lstm self) x of
        Inl e \<Rightarrow> Inl e
      | Inr hs \<Rightarrow>
          if [] \<in> set hs then Inl IndexError
          else Inr (map (\<lambda>h. linear_forward lib (linear_layer self) (last h)) hs))"

subsection \<open>The session state\<close>

text \<open>
  The notebook mutates the parameters of \<open>net\<close>, their gradient buffers and the
  optimizer's state in place, and \<^verbatim>\<open>torch.no_grad()\<close> switches gradient tracking off
  for a block. The trace records, in order, the operations performed and the lines
  printed.
\<close>

datatype event =
    Forward bool "real list list" "real list"
  | Loss real
  | SetDescription real
  | Backward
  | OptStep
  | ZeroGrad
  | Print string

record ('lw, 'vw, 'g, 'o) session =
  net_params :: "('lw, 'vw) net"
  grad :: 'g
  opt :: 'o
  grad_enabled :: bool
  trace :: "event list"

text \<open>\<^verbatim>\<open>net(x)\<close>: the forward pass on the current parameters.\<close>

definition net_call ::
  "('lw, 'vw, 'h, 'g, 'o) library \<Rightarrow> ('lw, 'vw, 'g, 'o) session \<Rightarrow> real list list \<Rightarrow>
     py_error + (real list \<times> ('lw, 'vw, 'g, 'o) session)"
where
  "net_call lib s x =
     (case forward lib (net_params s) x of
        Inl e \<Rightarrow> Inl e
      | Inr y \<Rightarrow> Inr (y, s\<lparr>trace := trace s @ [Forward (grad_enabled s) x y]\<rparr>))"

subsection \<open>The training loop\<close>

text \<open>
  \<^verbatim>\<open>
  opt = torch.optim.Adam(net.parameters(), lr=5e-3)
  progress_bar = tqdm(range(5000))
  for epoch in progress_bar:
      prediction = net(trainX)
      loss = torch.sum((prediction.flatten() - trainY.flatten())**2)
      progress_bar.set_description(f'Loss = {float(loss)}')
      loss.backward()
      opt.step()
      opt.zero_grad()
  \<close>
  Subtracting two one-dimensional tensors broadcasts a tensor of length one and raises
  on any other mismatch of lengths.
\<close>

definition broadcast_sub :: "real list \<Rightarrow> real list \<Rightarrow> py_error + real list" where
  "broadcast_sub a b =
     (if length a = length b then Inr (map2 (-) a b)
      else if length a = 1 then Inr (map (\<lambda>y. hd a - y) b)
      else if length b = 1 then Inr (map (\<lambda>x. x - hd b) a)
      else Inl RuntimeError)"

definition sum_squared_error :: "real list \<Rightarrow> real list \<Rightarrow> py_error + real" where
  "sum_squared_error prediction target =
     (case broadcast_sub prediction target of
        Inl e \<Rightarrow> Inl e
      | Inr d \<Rightarrow> Inr (sum_list (map (\<lambda>z. z ^ 2) d)))"

definition train_step ::
  "('lw, 'vw, 'h, 'g, 'o) library \<Rightarrow> real list list \<Rightarrow> real list \<Rightarrow>
     ('lw, 'vw, 'g, 'o) session \<Rightarrow> py_error + ('lw, 'vw, 'g, 'o) session"
where
  "train_step lib X Y s =
     (case net_call lib s X of Inl e \<Rightarrow> Inl e | Inr (prediction, s1) \<Rightarrow>
      case sum_squared_error prediction Y of Inl e \<Rightarrow> Inl e | Inr loss \<Rightarrow>
      let s2 = s1\<lparr>trace := trace s1 @ [Loss loss]\<rparr>;
          s3 = s2\<lparr>trace := trace s2 @ [SetDescription loss]\<rparr>;
          s4 = s3\<lparr>grad := backward lib (net_params s3) X Y (grad s3),
                  trace := trace s3 @ [Backward]\<rparr>;
          s5 = (case adam_step lib (net_params s4) (grad s4) (opt s4) of
                  (n', o') \<Rightarrow> s4\<lparr>net_params := n', opt := o', trace := trace s4 @ [OptStep]\<rparr>);
          s6 = s5\<lparr>grad := zero_grad lib (grad s5), trace := trace s5 @ [ZeroGrad]\<rparr>
      in Inr s6)"

fun training_loop ::
  "('lw, 'vw, 'h, 'g, 'o) library \<Rightarrow> real list list \<Rightarrow> real list \<Rightarrow> nat list \<Rightarrow>
     ('lw, 'vw, 'g, 'o) session \<Rightarrow> py_error + ('lw, 'vw, 'g, 'o) session"
where
  "training_loop lib X Y [] s = Inr s"
| "training_loop lib X Y (epoch # rest) s =
     (case train_step lib X Y s of
        Inl e \<Rightarrow> Inl e
      | Inr s' \<Rightarrow> training_loop lib X Y rest s')"

definition training ::
  "('lw, 'vw, 'h, 'g, 'o) library \<Rightarrow> real list list \<Rightarrow> real list \<Rightarrow>
     ('lw, 'vw, 'g, 'o) session \<Rightarrow> py_error + ('lw, 'vw, 'g, 'o) session"
where
  "training lib X Y s = training_loop lib X Y (py_range 5000) s"

text \<open>The events of one iteration whose forward pass returned \<open>prediction\<close>.\<close>

definition iteration_events :: "real list list \<Rightarrow> real list \<Rightarrow> real list \<Rightarrow> event list" where
  "iteration_events X Y prediction =
     [Forward True X prediction,
      Loss (sum_list (map2 (\<lambda>p y. (p - y) ^ 2) prediction Y)),
      SetDescription (sum_list (map2 (\<lambda>p y. (p - y) ^ 2) prediction Y)),
      Backward, OptStep, ZeroGrad]"

text \<open>
  One iteration as the specification words it, from the session \<open>s\<close> before it to the
  session \<open>s'\<close> after it: a forward pass over the entire training set on the current
  parameters, the sum of squared errors of its prediction, backpropagation into the
  gradient buffers, one optimizer step with these gradients, and the gradients cleared.
\<close>

definition one_iteration ::
  "('lw, 'vw, 'h, 'g, 'o) library \<Rightarrow> real list list \<Rightarrow> real list \<Rightarrow>
     ('lw, 'vw, 'g, 'o) session \<Rightarrow> real list \<Rightarrow> ('lw, 'vw, 'g, 'o) session \<Rightarrow> bool"
where
  "one_iteration lib X Y s prediction s' \<longleftrightarrow>
     forward lib (net_params s) X = Inr prediction \<and>
     trace s' = trace s @ iteration_events X Y prediction \<and>
     (net_params s', opt s') =
       adam_step lib (net_params s) (backward lib (net_params s) X Y (grad s)) (opt s) \<and>
     grad s' = zero_grad lib (backward lib (net_params s) X Y (grad s)) \<and>
     grad_enabled s'"

subsection \<open>The scaler\<close>

text \<open>
  Modelled from the spec: the min-max scaler is \<^verbatim>\<open>sklearn.preprocessing.MinMaxScaler\<close>,
  a library class whose code is not part of the repository. Its state is the observed
  minimum and maximum of the fit series, and
  \<open>normalize(x) = (x - min) / (max - min)\<close>. Values are real numbers.
\<close>

definition normalize :: "real \<Rightarrow> real \<Rightarrow> real \<Rightarrow> real" where
  "normalize mn mx x = (x - mn) / (mx - mn)"

text \<open>
  Modelled from the spec: the inversion of the scaler
  (\<^verbatim>\<open>scaler.inverse_transform\<close>, library code as well) maps a normalized value back
  to the raw scale with the same two scalars.
\<close>

definition scaler_inverse :: "real \<Rightarrow> real \<Rightarrow> real \<Rightarrow> real" where
  "scaler_inverse mn mx y = y * (mx - mn) + mn"

subsection \<open>Evaluation\<close>

text \<open>
  \<^verbatim>\<open>
  with torch.no_grad():
      trainPredict = net(trainX).numpy()
      testPredict = net(testX).numpy()
  \<close>
\<close>

definition predict ::
  "('lw, 'vw, 'h, 'g, 'o) library \<Rightarrow> ('lw, 'vw, 'g, 'o) session \<Rightarrow>
     real list list \<Rightarrow> real list list \<Rightarrow>
     py_error + (real list \<times> real list \<times> ('lw, 'vw, 'g, 'o) session)"
where
  "predict lib s trX teX =
     (let saved = grad_enabled s; s0 = s\<lparr>grad_enabled := False\<rparr> in
      case net_call lib s0 trX of Inl e \<Rightarrow> Inl e | Inr (trainPredict, s1) \<Rightarrow>
      case net_call lib s1 teX of Inl e \<Rightarrow> Inl e | Inr (testPredict, s2) \<Rightarrow>
      Inr (trainPredict, testPredict, s2\<lparr>grad_enabled := saved\<rparr>))"

text \<open>
  \<^verbatim>\<open>
  trainPredict = scaler.inverse_transform(trainPredict)
  trainY_inv = scaler.inverse_transform([trainY.numpy()])
  testPredict = scaler.inverse_transform(testPredict)
  testY_inv = scaler.inverse_transform([testY.numpy()])
  trainScore = math.sqrt(mean_squared_error(trainY_inv[0], trainPredict[:,0]))
  print('Train Score: %.2f RMSE' % (trainScore))
  testScore = math.sqrt(mean_squared_error(testY_inv[0], testPredict[:,0]))
  print('Test Score: %.2f RMSE' % (testScore))
  \<close>
  The library's mean squared error rejects arguments of different lengths and empty
  arguments.
\<close>

definition mean_squared_error :: "real list \<Rightarrow> real list \<Rightarrow> py_error + real" where
  "mean_squared_error y_true y_pred =
     (if length y_true \<noteq> length y_pred \<or> y_true = [] then Inl ValueError
      else Inr (sum_list (map2 (\<lambda>t p. (t - p) ^ 2) y_true y_pred) / real (length y_true)))"

definition scores ::
  "('lw, 'vw, 'h, 'g, 'o) library \<Rightarrow> ('lw, 'vw, 'g, 'o) session \<Rightarrow>
     real list \<Rightarrow> real list \<Rightarrow> real list \<Rightarrow> real list \<Rightarrow>
     py_error + (real list \<times> real list \<times> ('lw, 'vw, 'g, 'o) session)"
where
  "scores lib s trainPredict trY testPredict teY =
     (let trainPredict' = map (inverse_transform lib) trainPredict;
          trainY_inv = map (inverse_transform lib) trY;
          testPredict' = map (inverse_transform lib) testPredict;
          testY_inv = map (inverse_transform lib) teY
      in
      case mean_squared_error trainY_inv trainPredict' of Inl e \<Rightarrow> Inl e | Inr m1 \<Rightarrow>
      let trainScore = sqrt m1;
          s1 = s\<lparr>trace := trace s @ [Print (''Train Score: '' @ format_2f lib trainScore @ '' RMSE'')]\<rparr>
      in
      case mean_squared_error testY_inv testPredict' of Inl e \<Rightarrow> Inl e | Inr m2 \<Rightarrow>
      let testScore = sqrt m2;
          s2 = s1\<lparr>trace := trace s1 @ [Print (''Test Score: '' @ format_2f lib testScore @ '' RMSE'')]\<rparr>
      in Inr (trainPredict', testPredict', s2))"

definition evaluate ::
  "('lw, 'vw, 'h, 'g, 'o) library \<Rightarrow> ('lw, 'vw, 'g, 'o) session \<Rightarrow>
     real list list \<Rightarrow> real list \<Rightarrow> real list list \<Rightarrow> real list \<Rightarrow>
     py_error + (real list \<times> real list \<times> ('lw, 'vw, 'g, 'o) session)"
where
  "evaluate lib s trX trY teX teY =
     (case predict lib s trX teX of
        Inl e \<Rightarrow> Inl e
      | Inr (trainPredict, testPredict, s') \<Rightarrow> scores lib s' trainPredict trY testPredict teY)"

text \<open>
  The root-mean-squared error as the specification words it: the square root of the
  mean of the squared differences between prediction and ground truth.
\<close>

definition rmse_spec :: "real list \<Rightarrow> real list \<Rightarrow> real" where
  "rmse_spec predicted truth =
     sqrt ((\<Sum>i < length truth. (predicted ! i - truth ! i) ^ 2) / real (length truth))"

subsection \<open>Shifting the predictions for plotting\<close>

text \<open>
  \<^verbatim>\<open>
  trainPredictPlot = np.empty_like(dataset)
  trainPredictPlot[:, :] = np.nan
  trainPredictPlot[look_back:len(trainPredict)+look_back, :] = trainPredict
  testPredictPlot = np.empty_like(dataset)
  testPredictPlot[:, :] = np.nan
  testPredictPlot[len(trainPredict)+(look_back*2)+1:len(dataset)-1, :] = testPredict
  \<close>
  A plot array holds \<open>None\<close> where the notebook holds NaN. Assigning to a slice needs
  a source of the slice's length, or of length one, which is broadcast.
  \<^verbatim>\<open>len(dataset)-1\<close> is \<open>-1\<close> for an empty array, a bound that selects nothing there,
  as the truncated subtraction does.
\<close>

definition assign_slice :: "'b list \<Rightarrow> nat \<Rightarrow> nat \<Rightarrow> 'b list \<Rightarrow> py_error + 'b list" where
  "assign_slice dst lo hi src =
     (let n = length (py_slice dst lo hi) in
      if length src = n then Inr (take lo dst @ src @ drop (lo + n) dst)
      else if length src = 1 then Inr (take lo dst @ replicate n (hd src) @ drop (lo + n) dst)
      else Inl ValueError)"

definition trainPredictPlot :: "'a list \<Rightarrow> nat \<Rightarrow> 'b list \<Rightarrow> py_error + 'b option list" where
  "trainPredictPlot dataset look_back trainPredict =
     assign_slice (replicate (length dataset) None)
       look_back (length trainPredict + look_back) (map Some trainPredict)"

definition testPredictPlot ::
  "'a list \<Rightarrow> nat \<Rightarrow> 'b list \<Rightarrow> 'b list \<Rightarrow> py_error + 'b option list"
where
  "testPredictPlot dataset look_back trainPredict testPredict =
     assign_slice (replicate (length dataset) None)
       (length trainPredict + (look_back * 2) + 1) (length dataset - 1) (map Some testPredict)"

section \<open>Properties of the windowing transform\<close>

lemma create_dataset_loop_map:
  "(\<forall>i \<in> set idx. i + look_back < length dataset) \<Longrightarrow>
   create_dataset_loop dataset look_back idx (dataX, dataY) =
     Inr (dataX @ map (\<lambda>i. py_slice dataset i (i + look_back)) idx,
          dataY @ map (\<lambda>i. dataset ! (i + look_back)) idx)"
  by (induction idx arbitrary: dataX dataY) (simp_all add: py_index_def)

lemma create_dataset_eq:
  "create_dataset dataset look_back =
     Inr (map (\<lambda>i. py_slice dataset i (i + look_back)) [0 ..< length dataset - look_back - 1],
          map (\<lambda>i. dataset ! (i + look_back)) [0 ..< length dataset - look_back - 1])"
proof -
  have n: "nat (int (length dataset) - int look_back - 1) = length dataset - look_back - 1"
    by simp
  have "\<forall>i \<in> set [0 ..< length dataset - look_back - 1]. i + look_back < length dataset"
    by auto
  from create_dataset_loop_map [OF this, of "[]" "[]"]
  show ?thesis
    by (simp add: create_dataset_def py_range_def n)
qed

lemma length_py_slice_inside:
  "hi \<le> length xs \<Longrightarrow> length (py_slice xs lo hi) = hi - lo"
  by (simp add: py_slice_def)

lemma nth_py_slice:
  "lo + j < hi \<Longrightarrow> hi \<le> length xs \<Longrightarrow> py_slice xs lo hi ! j = xs ! (lo + j)"
  by (simp add: py_slice_def)

text \<open>
  C1. For every series \<open>S\<close> of length \<open>N\<close> and every window length \<open>L\<close>,
  \<open>create_dataset\<close> returns without raising, and returns exactly \<open>max(0, N-L-1)\<close>
  pairs; the \<open>i\<close>-th pair is \<open>(S[i:i+L], S[i+L])\<close>, in increasing order of \<open>i\<close>, so
  each window has \<open>L\<close> elements, the elements \<open>S[i], ..., S[i+L-1]\<close>, and its label is
  the element of the series right after it; when \<open>N \<le> L+1\<close> the result is empty.
\<close>

theorem create_dataset_pairs:
  "\<exists>dataX dataY.
     create_dataset S L = Inr (dataX, dataY) \<and>
     int (length dataX) = max 0 (int (length S) - int L - 1) \<and>
     length dataY = length dataX \<and>
     (\<forall>i < length dataX.
        dataX ! i = py_slice S i (i + L) \<and> dataY ! i = S ! (i + L) \<and>
        i + L < length S \<and> length (dataX ! i) = L \<and>
        (\<forall>j < L. dataX ! i ! j = S ! (i + j))) \<and>
     (length S \<le> L + 1 \<longrightarrow> dataX = [] \<and> dataY = [])"
proof -
  let ?n = "length S - L - 1"
  let ?X = "map (\<lambda>i. py_slice S i (i + L)) [0 ..< ?n]"
  let ?Y = "map (\<lambda>i. S ! (i + L)) [0 ..< ?n]"
  have eq: "create_dataset S L = Inr (?X, ?Y)"
    by (rule create_dataset_eq)
  have len: "int (length ?X) = max 0 (int (length S) - int L - 1)"
    by simp
  have pairs: "\<forall>i < length ?X.
        ?X ! i = py_slice S i (i + L) \<and> ?Y ! i = S ! (i + L) \<and>
        i + L < length S \<and> length (?X ! i) = L \<and>
        (\<forall>j < L. ?X ! i ! j = S ! (i + j))"
    by (auto simp: length_py_slice_inside nth_py_slice)
  have empty: "length S \<le> L + 1 \<longrightarrow> ?X = [] \<and> ?Y = []"
    by simp
  from eq len pairs empty show ?thesis
    by (intro exI [of _ ?X] exI [of _ ?Y] conjI) simp_all
qed

theorem create_dataset_pairs_witness:
  "(\<exists>dataX dataY.
      create_dataset [1, 2, 3, 4, 5 :: real] 2 = Inr (dataX, dataY) \<and>
      (1::nat) < length dataX \<and>
      dataX ! 1 = [2, 3] \<and> dataY ! 1 = 4 \<and> dataX ! 1 ! 1 = [1, 2, 3, 4, 5] ! (1 + 1)) \<and>
   (length [1, 2 :: real] \<le> 2 + 1 \<and> create_dataset [1, 2 :: real] 2 = Inr ([], []))"
proof -
  obtain dataX dataY where
    eq: "create_dataset [1, 2, 3, 4, 5 :: real] 2 = Inr (dataX, dataY)" and
    len: "int (length dataX) = max 0 (int (length [1, 2, 3, 4, 5 :: real]) - int 2 - 1)" and
    pairs: "\<forall>i < length dataX.
        dataX ! i = py_slice [1, 2, 3, 4, 5 :: real] i (i + 2) \<and>
        dataY ! i = [1, 2, 3, 4, 5 :: real] ! (i + 2) \<and>
        i + 2 < length [1, 2, 3, 4, 5 :: real] \<and> length (dataX ! i) = 2 \<and>
        (\<forall>j < 2. dataX ! i ! j = [1, 2, 3, 4, 5 :: real] ! (i + j))"
    using create_dataset_pairs [of "[1, 2, 3, 4, 5 :: real]" 2] by blast
  from len have l: "(1::nat) < length dataX" by simp
  with pairs have
    "dataX ! 1 = py_slice [1, 2, 3, 4, 5 :: real] 1 (1 + 2)"
    "dataY ! 1 = [1, 2, 3, 4, 5 :: real] ! (1 + 2)"
    "\<forall>j < 2. dataX ! 1 ! j = [1, 2, 3, 4, 5 :: real] ! (1 + j)"
    by blast+
  then have second: "dataX ! 1 = [2, 3]" "dataY ! 1 = 4"
    "dataX ! 1 ! 1 = [1, 2, 3, 4, 5 :: real] ! (1 + 1)"
    by (simp_all add: py_slice_def)
  obtain X Y where
    eq2: "create_dataset [1, 2 :: real] 2 = Inr (X, Y)" and
    emp: "length [1, 2 :: real] \<le> 2 + 1 \<longrightarrow> X = [] \<and> Y = []"
    using create_dataset_pairs [of "[1, 2 :: real]" 2] by blast
  have short: "length [1, 2 :: real] \<le> 2 + 1" by simp
  with emp eq2 have "create_dataset [1, 2 :: real] 2 = Inr ([], [])" by simp
  with eq l second short show ?thesis by blast
qed

text \<open>
  C2, as the code has it. On the series \<open>[1, ..., 10]\<close> with window length \<open>3\<close>,
  \<open>create_dataset\<close> returns the six pairs \<open>([1,2,3],4), ..., ([6,7,8],9)\<close>: the range
  \<^verbatim>\<open>range(len(dataset)-look_back-1)\<close> stops one index before the last possible
  window, so the pair \<open>([7,8,9],10)\<close> is not produced.
\<close>

theorem create_dataset_ten_three:
  "create_dataset [1, 2, 3, 4, 5, 6, 7, 8, 9, 10 :: real] 3 =
     Inr ([[1, 2, 3], [2, 3, 4], [3, 4, 5], [4, 5, 6], [5, 6, 7], [6, 7, 8]],
          [4, 5, 6, 7, 8, 9])"
  by (simp add: create_dataset_eq py_slice_def upt_rec)

text \<open>
  C2, as the specification states it, does not hold: the result is not the seven pairs
  ending with \<open>([7,8,9],10)\<close>.
\<close>

theorem create_dataset_ten_three_not_seven:
  "create_dataset [1, 2, 3, 4, 5, 6, 7, 8, 9, 10 :: real] 3 \<noteq>
     Inr ([[1, 2, 3], [2, 3, 4], [3, 4, 5], [4, 5, 6], [5, 6, 7], [6, 7, 8], [7, 8, 9]],
          [4, 5, 6, 7, 8, 9, 10])"
  by (simp add: create_dataset_eq py_slice_def upt_rec)

subsection \<open>Overlap of consecutive windows\<close>

lemma create_dataset_InrD:
  assumes "create_dataset S L = Inr (dataX, dataY)"
  shows "dataX = map (\<lambda>i. py_slice S i (i + L)) [0 ..< length S - L - 1]"
    and "dataY = map (\<lambda>i. S ! (i + L)) [0 ..< length S - L - 1]"
    and "length dataX = length S - L - 1"
    and "length dataY = length S - L - 1"
  using assms by (auto simp: create_dataset_eq)

text \<open>
  C8. Consecutive windows overlap by \<open>L - 1\<close> elements: for every \<open>i\<close> with
  \<open>i + 1 < count\<close>, window \<open>i + 1\<close> is window \<open>i\<close> shifted left by one position
  (\<open>dataX[i+1][j] = dataX[i][j+1]\<close> for \<open>j = 0, ..., L-2\<close>), and the last element of
  window \<open>i + 1\<close> is the label of pair \<open>i\<close> (\<open>dataX[i+1][L-1] = dataY[i]\<close>; a window
  has a last position when \<open>L\<close> is positive).
\<close>

theorem create_dataset_overlap:
  assumes cd: "create_dataset S L = Inr (dataX, dataY)"
      and i: "i + 1 < length dataX"
  shows "(\<forall>j. j + 1 < L \<longrightarrow> dataX ! (i + 1) ! j = dataX ! i ! (j + 1)) \<and>
         (0 < L \<longrightarrow> dataX ! (i + 1) ! (L - 1) = dataY ! i)"
proof -
  note d = create_dataset_InrD [OF cd]
  from i d(3) have bound: "i + 1 + L < length S" by simp
  from i d(3) have X1: "dataX ! (i + 1) = py_slice S (i + 1) (i + 1 + L)"
    by (simp add: d(1))
  from i d(3) have X0: "dataX ! i = py_slice S i (i + L)"
    by (simp add: d(1))
  from i d(3) have Y0: "dataY ! i = S ! (i + L)"
    by (simp add: d(2))
  have shift: "dataX ! (i + 1) ! j = dataX ! i ! (j + 1)" if "j + 1 < L" for j
    unfolding X1 X0 using that bound by (simp add: nth_py_slice)
  have lastw: "dataX ! (i + 1) ! (L - 1) = dataY ! i" if "0 < L"
    unfolding X1 Y0 using that bound by (simp add: nth_py_slice)
  from shift lastw show ?thesis by blast
qed

theorem create_dataset_overlap_witness:
  "create_dataset [1, 2, 3, 4, 5 :: real] 2 = Inr ([[1, 2], [2, 3]], [3, 4]) \<and>
   (0::nat) + 1 < length [[1, 2], [2, 3 :: real]] \<and>
   (0::nat) + 1 < 2 \<and>
   [[1, 2], [2, 3 :: real]] ! (0 + 1) ! 0 = [[1, 2], [2, 3]] ! 0 ! (0 + 1) \<and>
   (0::nat) < 2 \<and>
   [[1, 2], [2, 3 :: real]] ! (0 + 1) ! (2 - 1) = [3, 4] ! 0"
proof -
  have cd: "create_dataset [1, 2, 3, 4, 5 :: real] 2 = Inr ([[1, 2], [2, 3]], [3, 4])"
    by (simp add: create_dataset_eq py_slice_def upt_rec)
  have i: "(0::nat) + 1 < length [[1, 2], [2, 3 :: real]]" by simp
  have j: "(0::nat) + 1 < 2" and l: "(0::nat) < 2" by simp_all
  from create_dataset_overlap [OF cd i] j l
  have "[[1, 2], [2, 3 :: real]] ! (0 + 1) ! 0 = [[1, 2], [2, 3]] ! 0 ! (0 + 1)"
    and "[[1, 2], [2, 3 :: real]] ! (0 + 1) ! (2 - 1) = [3, 4] ! 0"
    by blast+
  with cd i j l show ?thesis by blast
qed

subsection \<open>The split and the partitions\<close>

lemma train_size_le: "train_size n \<le> n"
  by (simp add: train_size_def)

lemma train_size_floor: "int (train_size n) = \<lfloor>0.67 * real n\<rfloor>"
proof -
  have "\<lfloor>0.67 * real n\<rfloor> = \<lfloor>real_of_int (int (n * 67)) / real_of_int 100\<rfloor>"
    by (simp add: mult.commute)
  also have "\<dots> = int (n * 67) div 100"
    by (simp only: floor_divide_of_int_eq)
  finally show ?thesis by (simp add: train_size_def zdiv_int)
qed

text \<open>
  C10. The train/test split is a partition of the series that keeps the order: for every
  split point, and so for \<open>train_size = \<lfloor>0.67 * N\<rfloor>\<close> with \<open>test_size = N - train_size\<close>,
  the train slice followed by the test slice is the whole dataset; with the notebook's
  split point the two slices have \<open>train_size\<close> and \<open>test_size\<close> elements.
\<close>

theorem split_partition:
  "fst (split_dataset k dataset) @ snd (split_dataset k dataset) = dataset \<and>
   length (fst (split_dataset k dataset)) = min k (length dataset) \<and>
   length (snd (split_dataset k dataset)) = length dataset - k \<and>
   int (train_size (length dataset)) = \<lfloor>0.67 * real (length dataset)\<rfloor> \<and>
   length (fst (split_dataset (train_size (length dataset)) dataset)) = train_size (length dataset) \<and>
   length (snd (split_dataset (train_size (length dataset)) dataset)) = test_size (length dataset)"
  using train_size_le [of "length dataset"]
  by (simp add: split_dataset_def py_slice_def test_size_def train_size_floor)

lemma split_dataset_eq: "split_dataset k dataset = (take k dataset, drop k dataset)"
  by (simp add: split_dataset_def py_slice_def)

lemma py_slice_take:
  "hi \<le> k \<Longrightarrow> py_slice (take k xs) lo hi = py_slice xs lo hi"
  by (auto simp: py_slice_def take_drop min_def)

lemma py_slice_drop:
  "py_slice (drop k xs) lo hi = py_slice xs (k + lo) (k + hi)"
  by (simp add: py_slice_def add.commute)

text \<open>
  C4. Every training window and its label are elements of the dataset at indices below
  the split point, hence of the train partition \<open>dataset[0:train_size]\<close>; every test
  window and its label are elements at indices from the split point on, hence of the test
  partition \<open>dataset[train_size:N]\<close>. No windowed example has elements from both sides.
  This holds for every split point \<open>k\<close>, and the windows are those that \<open>prepare\<close>
  stores when it succeeds.
\<close>

theorem windows_within_partition:
  "\<exists>trX trY teX teY.
     create_dataset (fst (split_dataset k dataset)) L = Inr (trX, trY) \<and>
     create_dataset (snd (split_dataset k dataset)) L = Inr (teX, teY) \<and>
     (\<forall>d. prepare k dataset L = Inr d \<longrightarrow>
        train d = fst (split_dataset k dataset) \<and> test d = snd (split_dataset k dataset) \<and>
        trainX d = trX \<and> trainY d = trY \<and> testX d = teX \<and> testY d = teY) \<and>
     length trY = length trX \<and> length teY = length teX \<and>
     (\<forall>i < length trX.
        i + L < k \<and> i + L < length dataset \<and>
        trX ! i = py_slice dataset i (i + L) \<and> trY ! i = dataset ! (i + L) \<and>
        (\<forall>j < L. trX ! i ! j = dataset ! (i + j))) \<and>
     (\<forall>i < length teX.
        k + i + L < length dataset \<and>
        teX ! i = py_slice dataset (k + i) (k + i + L) \<and> teY ! i = dataset ! (k + i + L) \<and>
        (\<forall>j < L. teX ! i ! j = dataset ! (k + i + j)))"
proof -
  let ?tr = "take k dataset" and ?te = "drop k dataset"
  let ?m = "length ?tr - L - 1" and ?n = "length ?te - L - 1"
  let ?trX = "map (\<lambda>i. py_slice ?tr i (i + L)) [0 ..< ?m]"
  let ?trY = "map (\<lambda>i. ?tr ! (i + L)) [0 ..< ?m]"
  let ?teX = "map (\<lambda>i. py_slice ?te i (i + L)) [0 ..< ?n]"
  let ?teY = "map (\<lambda>i. ?te ! (i + L)) [0 ..< ?n]"
  have sp: "fst (split_dataset k dataset) = ?tr" "snd (split_dataset k dataset) = ?te"
    by (simp_all add: split_dataset_eq)
  have tr: "create_dataset (fst (split_dataset k dataset)) L = Inr (?trX, ?trY)"
    unfolding sp by (rule create_dataset_eq)
  have te: "create_dataset (snd (split_dataset k dataset)) L = Inr (?teX, ?teY)"
    unfolding sp by (rule create_dataset_eq)
  have prep: "\<forall>d. prepare k dataset L = Inr d \<longrightarrow>
        train d = fst (split_dataset k dataset) \<and> test d = snd (split_dataset k dataset) \<and>
        trainX d = ?trX \<and> trainY d = ?trY \<and> testX d = ?teX \<and> testY d = ?teY"
    unfolding sp
    by (auto simp: prepare_def split_dataset_eq create_dataset_eq reshape_samples_def
             split: if_splits)
  have trw: "\<forall>i < length ?trX.
        i + L < k \<and> i + L < length dataset \<and>
        ?trX ! i = py_slice dataset i (i + L) \<and> ?trY ! i = dataset ! (i + L) \<and>
        (\<forall>j < L. ?trX ! i ! j = dataset ! (i + j))"
  proof (intro allI impI)
    fix i assume "i < length ?trX"
    then have b: "i + L < k" "i + L < length dataset" by simp_all
    then have "py_slice ?tr i (i + L) = py_slice dataset i (i + L)"
      by (simp add: py_slice_take)
    moreover have "\<forall>j < L. py_slice dataset i (i + L) ! j = dataset ! (i + j)"
      using b by (simp add: nth_py_slice)
    ultimately show "i + L < k \<and> i + L < length dataset \<and>
        ?trX ! i = py_slice dataset i (i + L) \<and> ?trY ! i = dataset ! (i + L) \<and>
        (\<forall>j < L. ?trX ! i ! j = dataset ! (i + j))"
      using b \<open>i < length ?trX\<close> by simp
  qed
  have tew: "\<forall>i < length ?teX.
        k + i + L < length dataset \<and>
        ?teX ! i = py_slice dataset (k + i) (k + i + L) \<and> ?teY ! i = dataset ! (k + i + L) \<and>
        (\<forall>j < L. ?teX ! i ! j = dataset ! (k + i + j))"
  proof (intro allI impI)
    fix i assume i: "i < length ?teX"
    then have b: "k + i + L < length dataset" by simp
    have "py_slice ?te i (i + L) = py_slice dataset (k + i) (k + i + L)"
      by (simp add: py_slice_drop add.assoc)
    moreover have "\<forall>j < L. py_slice dataset (k + i) (k + i + L) ! j = dataset ! (k + i + j)"
      using b by (simp add: nth_py_slice)
    moreover have "?te ! (i + L) = dataset ! (k + i + L)"
      using b by (simp add: add.assoc)
    ultimately show "k + i + L < length dataset \<and>
        ?teX ! i = py_slice dataset (k + i) (k + i + L) \<and> ?teY ! i = dataset ! (k + i + L) \<and>
        (\<forall>j < L. ?teX ! i ! j = dataset ! (k + i + j))"
      using b i by simp
  qed
  have len: "length ?trY = length ?trX" "length ?teY = length ?teX" by simp_all
  from tr te prep len trw tew show ?thesis
    by (intro exI [of _ ?trX] exI [of _ ?trY] exI [of _ ?teX] exI [of _ ?teY] conjI)
qed

theorem windows_within_partition_witness:
  "\<exists>d. prepare (train_size 10) [1, 2, 3, 4, 5, 6, 7, 8, 9, 10 :: real] 1 = Inr d \<and>
       (0::nat) < length (trainX d) \<and> (0::nat) + 1 < train_size 10 \<and>
       trainX d ! 0 = [1] \<and> trainY d ! 0 = 2 \<and>
       (0::nat) < length (testX d) \<and>
       train_size 10 + 0 + 1 < length [1, 2, 3, 4, 5, 6, 7, 8, 9, 10 :: real] \<and>
       testX d ! 0 = [7] \<and> testY d ! 0 = 8"
proof -
  let ?ds = "[1, 2, 3, 4, 5, 6, 7, 8, 9, 10 :: real]"
  have k: "train_size 10 = 6" by (simp add: train_size_def)
  obtain trX trY teX teY where
    prep: "\<forall>d. prepare 6 ?ds 1 = Inr d \<longrightarrow>
        train d = fst (split_dataset 6 ?ds) \<and> test d = snd (split_dataset 6 ?ds) \<and>
        trainX d = trX \<and> trainY d = trY \<and> testX d = teX \<and> testY d = teY" and
    trw: "\<forall>i < length trX.
        i + 1 < 6 \<and> i + 1 < length ?ds \<and>
        trX ! i = py_slice ?ds i (i + 1) \<and> trY ! i = ?ds ! (i + 1) \<and>
        (\<forall>j < 1. trX ! i ! j = ?ds ! (i + j))" and
    tew: "\<forall>i < length teX.
        6 + i + 1 < length ?ds \<and>
        teX ! i = py_slice ?ds (6 + i) (6 + i + 1) \<and> teY ! i = ?ds ! (6 + i + 1) \<and>
        (\<forall>j < 1. teX ! i ! j = ?ds ! (6 + i + j))"
    using windows_within_partition [of 6 ?ds 1] by blast
  obtain d where d: "prepare 6 ?ds 1 = Inr d" and
    n: "(0::nat) < length (trainX d)" "(0::nat) < length (testX d)"
    by (simp add: prepare_def split_dataset_def create_dataset_eq reshape_samples_def
          py_slice_def upt_rec)
  from prep d have eqs: "trainX d = trX" "trainY d = trY" "testX d = teX" "testY d = teY"
    by blast+
  from trw n(1) have "trX ! 0 = py_slice ?ds 0 (0 + 1)" "trY ! 0 = ?ds ! (0 + 1)"
    unfolding eqs by blast+
  then have a: "trainX d ! 0 = [1]" "trainY d ! 0 = 2"
    by (simp_all add: eqs py_slice_def)
  from tew n(2) have "teX ! 0 = py_slice ?ds (6 + 0) (6 + 0 + 1)" "teY ! 0 = ?ds ! (6 + 0 + 1)"
    unfolding eqs by blast+
  then have b: "testX d ! 0 = [7]" "testY d ! 0 = 8"
    by (simp_all add: eqs py_slice_def)
  from d n a b show ?thesis
    unfolding k by (intro exI [of _ d]) simp
qed

subsection \<open>Plot offsets\<close>

lemma prepare_InrD:
  assumes "prepare k dataset L = Inr d"
  shows "length (trainX d) = k - L - 1"
    and "length (testX d) = length dataset - k - L - 1"
    and "L + 2 \<le> k"
    and "k + L + 2 \<le> length dataset"
    and "trainY d = map (\<lambda>i. dataset ! (i + L)) [0 ..< k - L - 1]"
    and "testY d = map (\<lambda>i. dataset ! (k + i + L)) [0 ..< length dataset - k - L - 1]"
  using assms
  by (auto simp: prepare_def split_dataset_eq create_dataset_eq reshape_samples_def
        min_def add.assoc split: if_splits)

lemma assign_slice_exact:
  "length (py_slice dst lo hi) = length src \<Longrightarrow>
   assign_slice dst lo hi src = Inr (take lo dst @ src @ drop (lo + length src) dst)"
  by (simp add: assign_slice_def)

lemma nth_spliced:
  "lo \<le> length dst \<Longrightarrow> i < length src \<Longrightarrow>
   (take lo dst @ src @ drop (lo + length src) dst) ! (lo + i) = src ! i"
  by (simp add: nth_append min_def)

text \<open>
  C7. When the preparation of the data has succeeded and the prediction arrays have one
  row per window, both slice assignments succeed, the destination slices have exactly the
  lengths of the prediction arrays, the test offset \<open>len(trainPredict) + 2 * look_back + 1\<close>
  is \<open>train_size + look_back\<close>, train prediction \<open>i\<close> is placed at index
  \<open>i + look_back\<close> and test prediction \<open>i\<close> at index \<open>train_size + look_back + i\<close>, and
  these are the indices of the series elements the labels of the windows were taken from.
\<close>

theorem plot_shift_alignment:
  assumes prep: "prepare k dataset L = Inr d"
      and ltr: "length (trainPredict :: 'b list) = length (trainX d)"
      and lte: "length (testPredict :: 'b list) = length (testX d)"
  shows "\<exists>p1 p2.
     trainPredictPlot dataset L trainPredict = Inr p1 \<and>
     testPredictPlot dataset L trainPredict testPredict = Inr p2 \<and>
     length p1 = length dataset \<and> length p2 = length dataset \<and>
     length (py_slice (replicate (length dataset) (None :: 'b option)) L
               (length trainPredict + L)) = length trainPredict \<and>
     length (py_slice (replicate (length dataset) (None :: 'b option))
               (length trainPredict + (L * 2) + 1) (length dataset - 1)) = length testPredict \<and>
     length trainPredict + (L * 2) + 1 = k + L \<and>
     (\<forall>i < length trainPredict.
        p1 ! (i + L) = Some (trainPredict ! i) \<and> trainY d ! i = dataset ! (i + L)) \<and>
     (\<forall>i < length testPredict.
        p2 ! (k + L + i) = Some (testPredict ! i) \<and> testY d ! i = dataset ! (k + L + i))"
proof -
  note D = prepare_InrD [OF prep]
  let ?N = "length dataset"
  let ?nan = "replicate ?N (None :: 'b option)"
  let ?A = "length trainPredict" and ?B = "length testPredict"
  let ?p1 = "take L ?nan @ map Some trainPredict @ drop (L + ?A) ?nan"
  let ?lo = "?A + (L * 2) + 1"
  let ?p2 = "take ?lo ?nan @ map Some testPredict @ drop (?lo + ?B) ?nan"
  have A: "?A = k - L - 1" using ltr D(1) by simp
  have B: "?B = ?N - k - L - 1" using lte D(2) by simp
  have lo: "?lo = k + L" using A D(3) by simp
  have s1: "length (py_slice ?nan L (?A + L)) = ?A"
    using A D(3,4) by (simp add: py_slice_def)
  have s2: "length (py_slice ?nan ?lo (?N - 1)) = ?B"
    unfolding lo using B D(4) by (simp add: py_slice_def)
  have e1: "trainPredictPlot dataset L trainPredict = Inr ?p1"
    unfolding trainPredictPlot_def using assign_slice_exact [of ?nan L "?A + L" "map Some trainPredict"] s1
    by simp
  have e2: "testPredictPlot dataset L trainPredict testPredict = Inr ?p2"
    unfolding testPredictPlot_def using assign_slice_exact [of ?nan ?lo "?N - 1" "map Some testPredict"] s2
    by simp
  have l1: "length ?p1 = ?N" using A D(3,4) by simp
  have l2: "length ?p2 = ?N" unfolding lo using B D(4) by simp
  have n1: "\<forall>i < ?A. ?p1 ! (i + L) = Some (trainPredict ! i) \<and> trainY d ! i = dataset ! (i + L)"
  proof (intro allI impI)
    fix i assume i: "i < ?A"
    have "L \<le> length ?nan" using D(3,4) by simp
    from nth_spliced [OF this, of i "map Some trainPredict"] i
    have "?p1 ! (i + L) = Some (trainPredict ! i)" by (simp add: add.commute)
    moreover have "trainY d ! i = dataset ! (i + L)"
      using i A by (simp add: D(5))
    ultimately show "?p1 ! (i + L) = Some (trainPredict ! i) \<and> trainY d ! i = dataset ! (i + L)"
      by simp
  qed
  have n2: "\<forall>i < ?B. ?p2 ! (k + L + i) = Some (testPredict ! i) \<and>
                      testY d ! i = dataset ! (k + L + i)"
  proof (intro allI impI)
    fix i assume i: "i < ?B"
    have "?lo \<le> length ?nan" unfolding lo using D(4) by simp
    from nth_spliced [OF this, of i "map Some testPredict"] i
    have "?p2 ! (?lo + i) = Some (testPredict ! i)" by simp
    then have "?p2 ! (k + L + i) = Some (testPredict ! i)" unfolding lo .
    moreover have "testY d ! i = dataset ! (k + L + i)"
      using i B by (simp add: D(6) add.assoc add.left_commute add.commute)
    ultimately show "?p2 ! (k + L + i) = Some (testPredict ! i) \<and>
                      testY d ! i = dataset ! (k + L + i)"
      by simp
  qed
  from e1 e2 l1 l2 s1 s2 lo n1 n2 show ?thesis
    by (intro exI [of _ ?p1] exI [of _ ?p2] conjI)
qed

theorem plot_shift_alignment_witness:
  "\<exists>d p1 p2.
     prepare 6 [1, 2, 3, 4, 5, 6, 7, 8, 9, 10 :: real] 1 = Inr d \<and>
     length [11, 12, 13, 14 :: real] = length (trainX d) \<and>
     length [21, 22 :: real] = length (testX d) \<and>
     trainPredictPlot [1, 2, 3, 4, 5, 6, 7, 8, 9, 10 :: real] 1 [11, 12, 13, 14 :: real] = Inr p1 \<and>
     testPredictPlot [1, 2, 3, 4, 5, 6, 7, 8, 9, 10 :: real] 1 [11, 12, 13, 14 :: real] [21, 22]
       = Inr p2 \<and>
     (0::nat) < length [11, 12, 13, 14 :: real] \<and>
     p1 ! (0 + 1) = Some ([11, 12, 13, 14] ! 0) \<and>
     (1::nat) < length [21, 22 :: real] \<and>
     p2 ! (6 + 1 + 1) = Some ([21, 22] ! 1) \<and>
     testY d ! 1 = [1, 2, 3, 4, 5, 6, 7, 8, 9, 10] ! (6 + 1 + 1)"
proof -
  let ?ds = "[1, 2, 3, 4, 5, 6, 7, 8, 9, 10 :: real]"
  let ?d = "\<lparr>train = [1, 2, 3, 4, 5, 6 :: real], test = [7, 8, 9, 10],
             trainX = [[1], [2], [3], [4]], trainY = [2, 3, 4, 5],
             testX = [[7], [8]], testY = [8, 9]\<rparr>"
  have d: "prepare 6 ?ds 1 = Inr ?d"
    by (simp add: prepare_def split_dataset_def create_dataset_eq reshape_samples_def
          py_slice_def upt_rec)
  have n1: "length [11, 12, 13, 14 :: real] = length (trainX ?d)" by simp
  have n2: "length [21, 22 :: real] = length (testX ?d)" by simp
  from plot_shift_alignment [OF d n1 n2] obtain p1 p2 where
    p1: "trainPredictPlot ?ds 1 [11, 12, 13, 14 :: real] = Inr p1" and
    p2: "testPredictPlot ?ds 1 [11, 12, 13, 14 :: real] [21, 22] = Inr p2" and
    tr: "\<forall>i < length [11, 12, 13, 14 :: real].
           p1 ! (i + 1) = Some ([11, 12, 13, 14] ! i) \<and> trainY ?d ! i = ?ds ! (i + 1)" and
    te: "\<forall>i < length [21, 22 :: real].
           p2 ! (6 + 1 + i) = Some ([21, 22] ! i) \<and> testY ?d ! i = ?ds ! (6 + 1 + i)"
    by (elim exE conjE)
  have i0: "(0::nat) < length [11, 12, 13, 14 :: real]" by simp
  have i1: "(1::nat) < length [21, 22 :: real]" by simp
  from tr [rule_format, OF i0] have a: "p1 ! (0 + 1) = Some ([11, 12, 13, 14] ! 0)"
    by (rule conjunct1)
  from te [rule_format, OF i1] have b: "p2 ! (6 + 1 + 1) = Some ([21, 22] ! 1)"
    and c: "testY ?d ! 1 = ?ds ! (6 + 1 + 1)"
    by (rule conjunct1, rule conjunct2)
  from d n1 n2 p1 p2 i0 a i1 b c show ?thesis
    by (intro exI [of _ ?d] exI [of _ p1] exI [of _ p2] conjI)
qed

subsection \<open>The forward pass and the training loop\<close>

lemma length_lstm_run: "length (lstm_run cell w h xs) = length xs"
  by (induction xs arbitrary: h) (simp_all add: Let_def)

lemma lstm_run_Nil_iff: "lstm_run cell w h xs = [] \<longleftrightarrow> xs = []"
  by (cases xs) (simp_all add: Let_def)

lemma lstm_run_Nil_iff2: "[] = lstm_run cell w h xs \<longleftrightarrow> xs = []"
  by (cases xs) (simp_all add: Let_def)

lemma forward_total:
  assumes "[] \<notin> set X"
  shows "\<exists>p. forward lib n X = Inr p \<and> length p = length X"
proof -
  have "[] \<notin> set (map (lstm_run (lstm_cell lib) (lstm n) (lstm_init lib)) X)"
    using assms by (auto simp: lstm_run_Nil_iff2)
  with assms show ?thesis
    by (simp add: forward_def lstm_layer_def)
qed

lemma sum_squared_error_same_length:
  "length p = length Y \<Longrightarrow>
   sum_squared_error p Y = Inr (sum_list (map2 (\<lambda>p y. (p - y) ^ 2) p Y))"
  by (simp add: sum_squared_error_def broadcast_sub_def map_zip_map2 comp_def case_prod_unfold)

lemma train_step_total:
  assumes "[] \<notin> set X" "length X = length Y" "grad_enabled s"
  shows "\<exists>s' p. train_step lib X Y s = Inr s' \<and> one_iteration lib X Y s p s'"
proof -
  from forward_total [OF assms(1)] obtain p where
    p: "forward lib (net_params s) X = Inr p" "length p = length X" by blast
  with assms(2) have "sum_squared_error p Y = Inr (sum_list (map2 (\<lambda>p y. (p - y) ^ 2) p Y))"
    by (simp add: sum_squared_error_same_length)
  with p assms(3) show ?thesis
    by (simp add: train_step_def net_call_def Let_def iteration_events_def one_iteration_def
          split: prod.splits)
qed

lemma one_iteration_grad_enabled: "one_iteration lib X Y s p s' \<Longrightarrow> grad_enabled s'"
  by (simp add: one_iteration_def)

lemma one_iteration_trace:
  "one_iteration lib X Y s p s' \<Longrightarrow> trace s' = trace s @ iteration_events X Y p"
  by (simp add: one_iteration_def)

lemma training_loop_states:
  assumes "[] \<notin> set X" "length X = length Y"
  shows "grad_enabled s \<Longrightarrow>
         \<exists>ss preds. length ss = Suc (length epochs) \<and> length preds = length epochs \<and>
           ss ! 0 = s \<and>
           training_loop lib X Y epochs s = Inr (ss ! length epochs) \<and>
           trace (ss ! length epochs) = trace s @ concat (map (iteration_events X Y) preds) \<and>
           (\<forall>k < length epochs. one_iteration lib X Y (ss ! k) (preds ! k) (ss ! Suc k))"
proof (induction epochs arbitrary: s)
  case Nil
  show ?case
    by (intro exI [of _ "[s]"] exI [of _ "[]"]) simp
next
  case (Cons epoch rest)
  from train_step_total [OF assms Cons.prems, where lib = lib] obtain s1 p where
    s1: "train_step lib X Y s = Inr s1" "one_iteration lib X Y s p s1" by blast
  from Cons.IH [OF one_iteration_grad_enabled [OF s1(2)]] obtain ss preds where
    r: "length ss = Suc (length rest)" "length preds = length rest" "ss ! 0 = s1"
       "training_loop lib X Y rest s1 = Inr (ss ! length rest)"
       "trace (ss ! length rest) = trace s1 @ concat (map (iteration_events X Y) preds)"
       "\<forall>k < length rest. one_iteration lib X Y (ss ! k) (preds ! k) (ss ! Suc k)"
    by blast
  let ?ss = "s # ss" and ?preds = "p # preds"
  have "length ?ss = Suc (length (epoch # rest))" "length ?preds = length (epoch # rest)"
    using r(1,2) by simp_all
  moreover have "?ss ! 0 = s" by simp
  moreover have "training_loop lib X Y (epoch # rest) s = Inr (?ss ! length (epoch # rest))"
    using s1(1) r(4) by simp
  moreover have "trace (?ss ! length (epoch # rest)) =
                 trace s @ concat (map (iteration_events X Y) ?preds)"
    using r(5) one_iteration_trace [OF s1(2)] by simp
  moreover have "\<forall>k < length (epoch # rest).
                   one_iteration lib X Y (?ss ! k) (?preds ! k) (?ss ! Suc k)"
  proof (intro allI impI)
    fix k assume k: "k < length (epoch # rest)"
    show "one_iteration lib X Y (?ss ! k) (?preds ! k) (?ss ! Suc k)"
    proof (cases k)
      case 0
      with s1(2) r(3) show ?thesis by simp
    next
      case (Suc j)
      with k r(6) show ?thesis by simp
    qed
  qed
  ultimately show ?case
    by (intro exI [of _ ?ss] exI [of _ ?preds] conjI)
qed

lemma length_py_range_5000: "length (py_range 5000) = 5000"
  unfolding py_range_def length_upt by simp

text \<open>
  C5. When the forward pass and the loss cannot raise (every training window has a time
  step, one label per window) the training loop returns after exactly 5000 iterations,
  whatever the library operations compute: no loss value, gradient or parameter value
  ends it earlier or later. The sessions \<open>ss ! 0, ..., ss ! 5000\<close> before and after
  the iterations are linked one to the next: iteration \<open>k\<close> runs the forward pass over
  the whole training set on the parameters of \<open>ss ! k\<close>, records the sum of squared
  errors of that prediction, updates the progress bar, backpropagates into the gradient
  buffers, takes one optimizer step with these gradients, which gives the parameters
  and the optimizer state of \<open>ss ! Suc k\<close>, and clears the gradients, in this order.
\<close>

theorem training_runs_5000_iterations:
  assumes "[] \<notin> set X" "length X = length Y" "grad_enabled s"
  shows "\<exists>ss preds.
           length ss = 5001 \<and> length preds = 5000 \<and> ss ! 0 = s \<and>
           training lib X Y s = Inr (ss ! 5000) \<and>
           trace (ss ! 5000) = trace s @ concat (map (iteration_events X Y) preds) \<and>
           (\<forall>k < 5000.
              forward lib (net_params (ss ! k)) X = Inr (preds ! k) \<and>
              trace (ss ! Suc k) = trace (ss ! k) @ iteration_events X Y (preds ! k) \<and>
              (net_params (ss ! Suc k), opt (ss ! Suc k)) =
                adam_step lib (net_params (ss ! k))
                  (backward lib (net_params (ss ! k)) X Y (grad (ss ! k))) (opt (ss ! k)) \<and>
              grad (ss ! Suc k) =
                zero_grad lib (backward lib (net_params (ss ! k)) X Y (grad (ss ! k))) \<and>
              grad_enabled (ss ! Suc k))"
proof -
  from training_loop_states [OF assms, where lib = lib and epochs = "py_range 5000"] obtain ss preds where
    r: "length ss = Suc (length (py_range 5000))"
       "length preds = length (py_range 5000)"
       "ss ! 0 = s"
       "training_loop lib X Y (py_range 5000) s = Inr (ss ! length (py_range 5000))"
       "trace (ss ! length (py_range 5000)) =
          trace s @ concat (map (iteration_events X Y) preds)"
       "\<forall>k < length (py_range 5000). one_iteration lib X Y (ss ! k) (preds ! k) (ss ! Suc k)"
    by (elim exE conjE)
  note n = length_py_range_5000
  from r(1) have "length ss = 5001"
    unfolding n by simp
  moreover from r(2) have "length preds = 5000"
    unfolding n .
  moreover from r(4) have "training lib X Y s = Inr (ss ! 5000)"
    unfolding n training_def .
  moreover from r(5) have "trace (ss ! 5000) = trace s @ concat (map (iteration_events X Y) preds)"
    unfolding n .
  moreover from r(6) have "\<forall>k < 5000.
              forward lib (net_params (ss ! k)) X = Inr (preds ! k) \<and>
              trace (ss ! Suc k) = trace (ss ! k) @ iteration_events X Y (preds ! k) \<and>
              (net_params (ss ! Suc k), opt (ss ! Suc k)) =
                adam_step lib (net_params (ss ! k))
                  (backward lib (net_params (ss ! k)) X Y (grad (ss ! k))) (opt (ss ! k)) \<and>
              grad (ss ! Suc k) =
                zero_grad lib (backward lib (net_params (ss ! k)) X Y (grad (ss ! k))) \<and>
              grad_enabled (ss ! Suc k)"
    unfolding n one_iteration_def .
  ultimately show ?thesis
    using r(3) by (intro exI [of _ ss] exI [of _ preds] conjI)
qed

subsection \<open>Evaluation\<close>

lemma net_call_total:
  assumes "[] \<notin> set X"
  shows "\<exists>p. forward lib (net_params s) X = Inr p \<and> length p = length X \<and>
           net_call lib s X = Inr (p, s\<lparr>trace := trace s @ [Forward (grad_enabled s) X p]\<rparr>)"
proof -
  from forward_total [OF assms] obtain p where
    "forward lib (net_params s) X = Inr p" "length p = length X" by blast
  then show ?thesis by (simp add: net_call_def)
qed

lemma predict_total:
  assumes "[] \<notin> set trX" "[] \<notin> set teX"
  shows "\<exists>p q. forward lib (net_params s) trX = Inr p \<and> length p = length trX \<and>
           forward lib (net_params s) teX = Inr q \<and> length q = length teX \<and>
           predict lib s trX teX =
             Inr (p, q, s\<lparr>trace := trace s @ [Forward False trX p, Forward False teX q]\<rparr>)"
proof -
  let ?s0 = "s\<lparr>grad_enabled := False\<rparr>"
  from net_call_total [OF assms(1), of lib ?s0] obtain p where
    p: "forward lib (net_params s) trX = Inr p" "length p = length trX"
       "net_call lib ?s0 trX = Inr (p, ?s0\<lparr>trace := trace ?s0 @ [Forward (grad_enabled ?s0) trX p]\<rparr>)"
    by auto
  let ?s1 = "?s0\<lparr>trace := trace ?s0 @ [Forward (grad_enabled ?s0) trX p]\<rparr>"
  from net_call_total [OF assms(2), of lib ?s1] obtain q where
    q: "forward lib (net_params s) teX = Inr q" "length q = length teX"
       "net_call lib ?s1 teX = Inr (q, ?s1\<lparr>trace := trace ?s1 @ [Forward (grad_enabled ?s1) teX q]\<rparr>)"
    by auto
  have "predict lib s trX teX =
             Inr (p, q, s\<lparr>trace := trace s @ [Forward False trX p, Forward False teX q]\<rparr>)"
    using p(3) q(3) by (simp add: predict_def Let_def)
  with p(1,2) q(1,2) show ?thesis by blast
qed

text \<open>
  C9. Computing the train and test predictions under \<^verbatim>\<open>torch.no_grad()\<close> returns
  (when every window has a time step) and leaves the parameters of the recurrent layer
  and of the linear layer, the gradient buffers and the optimizer's state as they were
  before, hence as training left them; gradient tracking is restored afterwards. Only the
  trace grows.
\<close>

theorem inference_keeps_parameters:
  assumes "[] \<notin> set trX" "[] \<notin> set teX"
  shows "\<exists>trainPredict testPredict s'.
           predict lib s trX teX = Inr (trainPredict, testPredict, s') \<and>
           lstm (net_params s') = lstm (net_params s) \<and>
           linear_layer (net_params s') = linear_layer (net_params s) \<and>
           net_params s' = net_params s \<and> grad s' = grad s \<and> opt s' = opt s \<and>
           grad_enabled s' = grad_enabled s"
proof -
  from predict_total [OF assms, of lib s] obtain p q where
    "predict lib s trX teX =
       Inr (p, q, s\<lparr>trace := trace s @ [Forward False trX p, Forward False teX q]\<rparr>)"
    by blast
  then show ?thesis by simp
qed

lemma sum_list_map2_nth:
  "length xs = length ys \<Longrightarrow>
   sum_list (map2 f xs ys) = (\<Sum>i < length xs. f (xs ! i) (ys ! i))"
proof -
  assume l: "length xs = length ys"
  have "sum_list (map2 f xs ys) = (\<Sum>i = 0 ..< length (map2 f xs ys). map2 f xs ys ! i)"
    by (rule sum_list_sum_nth)
  also have "\<dots> = (\<Sum>i = 0 ..< length xs. f (xs ! i) (ys ! i))"
    using l by (intro sum.cong) simp_all
  finally show ?thesis by (simp add: atLeast0LessThan)
qed

lemma mean_squared_error_rmse:
  assumes "length y_true = length y_pred" "y_true \<noteq> []"
  shows "\<exists>m. mean_squared_error y_true y_pred = Inr m \<and> sqrt m = rmse_spec y_pred y_true"
proof -
  have "sum_list (map2 (\<lambda>t p. (t - p) ^ 2) y_true y_pred) =
        (\<Sum>i < length y_true. (y_true ! i - y_pred ! i) ^ 2)"
    using assms(1) by (rule sum_list_map2_nth)
  also have "\<dots> = (\<Sum>i < length y_true. (y_pred ! i - y_true ! i) ^ 2)"
    by (simp add: power2_commute)
  finally show ?thesis
    using assms by (simp add: mean_squared_error_def rmse_spec_def)
qed

lemma scores_total:
  assumes "length p = length trY" "length q = length teY" "trY \<noteq> []" "teY \<noteq> []"
  shows "scores lib s p trY q teY =
     Inr (map (inverse_transform lib) p, map (inverse_transform lib) q,
          s\<lparr>trace := trace s @
             [Print (''Train Score: '' @
                format_2f lib (rmse_spec (map (inverse_transform lib) p)
                                 (map (inverse_transform lib) trY)) @ '' RMSE''),
              Print (''Test Score: '' @
                format_2f lib (rmse_spec (map (inverse_transform lib) q)
                                 (map (inverse_transform lib) teY)) @ '' RMSE'')]\<rparr>)"
proof -
  let ?inv = "inverse_transform lib"
  from assms(1,3) mean_squared_error_rmse [of "map ?inv trY" "map ?inv p"] obtain m1 where
    m1: "mean_squared_error (map ?inv trY) (map ?inv p) = Inr m1"
        "sqrt m1 = rmse_spec (map ?inv p) (map ?inv trY)" by auto
  from assms(2,4) mean_squared_error_rmse [of "map ?inv teY" "map ?inv q"] obtain m2 where
    m2: "mean_squared_error (map ?inv teY) (map ?inv q) = Inr m2"
        "sqrt m2 = rmse_spec (map ?inv q) (map ?inv teY)" by auto
  show ?thesis
    by (simp add: scores_def Let_def m1 m2)
qed

text \<open>
  C6. On windows with at least one time step and one label per window, both partitions
  non-empty, the evaluation returns. It runs the forward pass on the train windows and
  on the test windows with gradient tracking switched off, on the parameters it was
  given; it inverts the normalization of the predictions and of the labels with the
  scaler; and it prints two lines, the root-mean-squared error between inverted
  predictions and inverted labels of the train partition and then of the test partition.
  Values are real numbers here; the scaler's inverse and the two-decimal formatting are
  the library's.
\<close>

theorem evaluate_prints_rmse:
  assumes "[] \<notin> set trX" "[] \<notin> set teX"
      and "length trX = length trY" "length teX = length teY"
      and "trX \<noteq> []" "teX \<noteq> []"
  shows "\<exists>p q s'.
     forward lib (net_params s) trX = Inr p \<and> forward lib (net_params s) teX = Inr q \<and>
     evaluate lib s trX trY teX teY =
       Inr (map (inverse_transform lib) p, map (inverse_transform lib) q, s') \<and>
     trace s' = trace s @
       [Forward False trX p, Forward False teX q,
        Print (''Train Score: '' @
          format_2f lib (rmse_spec (map (inverse_transform lib) p)
                           (map (inverse_transform lib) trY)) @ '' RMSE''),
        Print (''Test Score: '' @
          format_2f lib (rmse_spec (map (inverse_transform lib) q)
                           (map (inverse_transform lib) teY)) @ '' RMSE'')]"
proof -
  from predict_total [OF assms(1,2), of lib s] obtain p q where
    pq: "forward lib (net_params s) trX = Inr p" "length p = length trX"
        "forward lib (net_params s) teX = Inr q" "length q = length teX"
        "predict lib s trX teX =
           Inr (p, q, s\<lparr>trace := trace s @ [Forward False trX p, Forward False teX q]\<rparr>)"
    by blast
  let ?s1 = "s\<lparr>trace := trace s @ [Forward False trX p, Forward False teX q]\<rparr>"
  have lens: "length p = length trY" "length q = length teY" "trY \<noteq> []" "teY \<noteq> []"
    using pq(2,4) assms(3-6) by auto
  note sc = scores_total [OF lens, of lib ?s1]
  have "evaluate lib s trX trY teX teY = scores lib ?s1 p trY q teY"
    by (simp add: evaluate_def pq(5))
  with sc pq(1,3) show ?thesis by simp
qed

theorem training_runs_5000_iterations_witness:
  "[] \<notin> set [[1, 1 :: real]] \<and> length [[1, 1 :: real]] = length [10 :: real] \<and>
   grad_enabled (\<lparr>net_params = \<lparr>lstm = 2, linear_layer = 3\<rparr>, grad = 0, opt = 0,
          grad_enabled = True, trace = []\<rparr> :: (real, real, real, nat) session) \<and>
   (\<exists>ss preds.
      length ss = 5001 \<and> length preds = 5000 \<and> ss ! 0 = (\<lparr>net_params = \<lparr>lstm = 2, linear_layer = 3\<rparr>, grad = 0, opt = 0,
          grad_enabled = True, trace = []\<rparr> :: (real, real, real, nat) session) \<and>
      training (\<lparr>lstm_cell = (\<lambda>w x h. w * x + h), lstm_init = 0,
          linear_forward = (\<lambda>v h. v * h), backward = (\<lambda>n X Y g. g + 1),
          adam_step = (\<lambda>n g t. (n\<lparr>lstm := lstm n - g\<rparr>, Suc t)), zero_grad = (\<lambda>g. 0),
          inverse_transform = (\<lambda>x. 100 + 600 * x), format_2f = (\<lambda>x. [])\<rparr>
        :: (real, real, real, real, nat) library) [[1, 1]] [10] (\<lparr>net_params = \<lparr>lstm = 2, linear_layer = 3\<rparr>, grad = 0, opt = 0,
          grad_enabled = True, trace = []\<rparr> :: (real, real, real, nat) session) = Inr (ss ! 5000) \<and>
      trace (ss ! 5000) = trace (\<lparr>net_params = \<lparr>lstm = 2, linear_layer = 3\<rparr>, grad = 0, opt = 0,
          grad_enabled = True, trace = []\<rparr> :: (real, real, real, nat) session) @ concat (map (iteration_events [[1, 1]] [10]) preds) \<and>
      (0 :: nat) < 5000 \<and>
      preds ! 0 = [12] \<and>
      trace (ss ! Suc 0) =
        [Forward True [[1, 1]] [12], Loss 4, SetDescription 4, Backward, OptStep, ZeroGrad] \<and>
      net_params (ss ! Suc 0) = \<lparr>lstm = 1, linear_layer = 3\<rparr> \<and>
      opt (ss ! Suc 0) = 1 \<and> grad (ss ! Suc 0) = 0 \<and> grad_enabled (ss ! Suc 0))"
proof -
  let ?lib = "(\<lparr>lstm_cell = (\<lambda>w x h. w * x + h), lstm_init = 0,
          linear_forward = (\<lambda>v h. v * h), backward = (\<lambda>n X Y g. g + 1),
          adam_step = (\<lambda>n g t. (n\<lparr>lstm := lstm n - g\<rparr>, Suc t)), zero_grad = (\<lambda>g. 0),
          inverse_transform = (\<lambda>x. 100 + 600 * x), format_2f = (\<lambda>x. [])\<rparr>
        :: (real, real, real, real, nat) library)"
  let ?s = "(\<lparr>net_params = \<lparr>lstm = 2, linear_layer = 3\<rparr>, grad = 0, opt = 0,
          grad_enabled = True, trace = []\<rparr> :: (real, real, real, nat) session)"
  have h1: "[] \<notin> set [[1, 1 :: real]]" by simp
  have h2: "length [[1, 1 :: real]] = length [10 :: real]" by simp
  have h3: "grad_enabled ?s" by simp
  from training_runs_5000_iterations [OF h1 h2 h3, where lib = ?lib] obtain ss preds where
    r: "length ss = 5001" "length preds = 5000" "ss ! 0 = ?s"
       "training ?lib [[1, 1]] [10] ?s = Inr (ss ! 5000)"
       "trace (ss ! 5000) = trace ?s @ concat (map (iteration_events [[1, 1]] [10]) preds)" and
    it: "\<forall>k < 5000.
           forward ?lib (net_params (ss ! k)) [[1, 1]] = Inr (preds ! k) \<and>
           trace (ss ! Suc k) = trace (ss ! k) @ iteration_events [[1, 1]] [10] (preds ! k) \<and>
           (net_params (ss ! Suc k), opt (ss ! Suc k)) =
             adam_step ?lib (net_params (ss ! k))
               (backward ?lib (net_params (ss ! k)) [[1, 1]] [10] (grad (ss ! k))) (opt (ss ! k)) \<and>
           grad (ss ! Suc k) =
             zero_grad ?lib (backward ?lib (net_params (ss ! k)) [[1, 1]] [10] (grad (ss ! k))) \<and>
           grad_enabled (ss ! Suc k)"
    by (elim exE conjE)
  have k: "(0 :: nat) < 5000" by simp
  note i0 = it [rule_format, OF k, unfolded r(3)]
  from i0 have f: "forward ?lib (net_params ?s) [[1, 1]] = Inr (preds ! 0)"
    by (rule conjunct1)
  then have p0: "preds ! 0 = [12]"
    by (simp add: forward_def lstm_layer_def)
  from i0 have "trace (ss ! Suc 0) = trace ?s @ iteration_events [[1, 1]] [10] (preds ! 0)"
    by (elim conjE)
  then have t: "trace (ss ! Suc 0) =
      [Forward True [[1, 1]] [12], Loss 4, SetDescription 4, Backward, OptStep, ZeroGrad]"
    unfolding p0 by (simp add: iteration_events_def)
  from i0 have "(net_params (ss ! Suc 0), opt (ss ! Suc 0)) =
             adam_step ?lib (net_params ?s)
               (backward ?lib (net_params ?s) [[1, 1]] [10] (grad ?s)) (opt ?s)"
    by (elim conjE)
  then have n: "net_params (ss ! Suc 0) = \<lparr>lstm = 1, linear_layer = 3\<rparr>" "opt (ss ! Suc 0) = 1"
    by simp_all
  from i0 have "grad (ss ! Suc 0) =
             zero_grad ?lib (backward ?lib (net_params ?s) [[1, 1]] [10] (grad ?s))"
    by (elim conjE)
  then have g: "grad (ss ! Suc 0) = 0" by simp
  from i0 have e: "grad_enabled (ss ! Suc 0)" by (elim conjE)
  from h1 h2 h3 r k p0 t n g e show ?thesis
    by (intro conjI exI [of _ ss] exI [of _ preds])
qed

theorem inference_keeps_parameters_witness:
  "[] \<notin> set [[1 :: real]] \<and> [] \<notin> set [[2 :: real]] \<and>
   (\<exists>trainPredict testPredict s'.
      predict (\<lparr>lstm_cell = (\<lambda>w x h. w * x + h), lstm_init = 0,
          linear_forward = (\<lambda>v h. v * h), backward = (\<lambda>n X Y g. g + 1),
          adam_step = (\<lambda>n g t. (n, Suc t)), zero_grad = (\<lambda>g. 0),
          inverse_transform = (\<lambda>x. 100 + 600 * x), format_2f = (\<lambda>x. [])\<rparr>
        :: (real, real, real, real, nat) library) (\<lparr>net_params = \<lparr>lstm = 1, linear_layer = 1\<rparr>, grad = 0, opt = 0,
          grad_enabled = True, trace = []\<rparr> :: (real, real, real, nat) session) [[1]] [[2]] = Inr (trainPredict, testPredict, s') \<and>
      lstm (net_params s') = lstm (net_params (\<lparr>net_params = \<lparr>lstm = 1, linear_layer = 1\<rparr>, grad = 0, opt = 0,
          grad_enabled = True, trace = []\<rparr> :: (real, real, real, nat) session)) \<and>
      linear_layer (net_params s') = linear_layer (net_params (\<lparr>net_params = \<lparr>lstm = 1, linear_layer = 1\<rparr>, grad = 0, opt = 0,
          grad_enabled = True, trace = []\<rparr> :: (real, real, real, nat) session)) \<and>
      net_params s' = net_params (\<lparr>net_params = \<lparr>lstm = 1, linear_layer = 1\<rparr>, grad = 0, opt = 0,
          grad_enabled = True, trace = []\<rparr> :: (real, real, real, nat) session) \<and> grad s' = grad (\<lparr>net_params = \<lparr>lstm = 1, linear_layer = 1\<rparr>, grad = 0, opt = 0,
          grad_enabled = True, trace = []\<rparr> :: (real, real, real, nat) session) \<and> opt s' = opt (\<lparr>net_params = \<lparr>lstm = 1, linear_layer = 1\<rparr>, grad = 0, opt = 0,
          grad_enabled = True, trace = []\<rparr> :: (real, real, real, nat) session) \<and>
      grad_enabled s' = grad_enabled (\<lparr>net_params = \<lparr>lstm = 1, linear_layer = 1\<rparr>, grad = 0, opt = 0,
          grad_enabled = True, trace = []\<rparr> :: (real, real, real, nat) session))"
proof -
  have h1: "[] \<notin> set [[1 :: real]]" by simp
  have h2: "[] \<notin> set [[2 :: real]]" by simp
  from h1 h2 inference_keeps_parameters [OF h1 h2] show ?thesis
    by (intro conjI)
qed

theorem evaluate_prints_rmse_witness:
  "[] \<notin> set [[1 :: real]] \<and> [] \<notin> set [[2 :: real]] \<and>
   length [[1 :: real]] = length [2 :: real] \<and> length [[2 :: real]] = length [3 :: real] \<and>
   [[1 :: real]] \<noteq> [] \<and> [[2 :: real]] \<noteq> [] \<and>
   (\<exists>p q s'.
     forward (\<lparr>lstm_cell = (\<lambda>w x h. w * x + h), lstm_init = 0,
          linear_forward = (\<lambda>v h. v * h), backward = (\<lambda>n X Y g. g + 1),
          adam_step = (\<lambda>n g t. (n, Suc t)), zero_grad = (\<lambda>g. 0),
          inverse_transform = (\<lambda>x. 100 + 600 * x), format_2f = (\<lambda>x. [])\<rparr>
        :: (real, real, real, real, nat) library) (net_params (\<lparr>net_params = \<lparr>lstm = 1, linear_layer = 1\<rparr>, grad = 0, opt = 0,
          grad_enabled = True, trace = []\<rparr> :: (real, real, real, nat) session)) [[1]] = Inr p \<and>
     forward (\<lparr>lstm_cell = (\<lambda>w x h. w * x + h), lstm_init = 0,
          linear_forward = (\<lambda>v h. v * h), backward = (\<lambda>n X Y g. g + 1),
          adam_step = (\<lambda>n g t. (n, Suc t)), zero_grad = (\<lambda>g. 0),
          inverse_transform = (\<lambda>x. 100 + 600 * x), format_2f = (\<lambda>x. [])\<rparr>
        :: (real, real, real, real, nat) library) (net_params (\<lparr>net_params = \<lparr>lstm = 1, linear_layer = 1\<rparr>, grad = 0, opt = 0,
          grad_enabled = True, trace = []\<rparr> :: (real, real, real, nat) session)) [[2]] = Inr q \<and>
     evaluate (\<lparr>lstm_cell = (\<lambda>w x h. w * x + h), lstm_init = 0,
          linear_forward = (\<lambda>v h. v * h), backward = (\<lambda>n X Y g. g + 1),
          adam_step = (\<lambda>n g t. (n, Suc t)), zero_grad = (\<lambda>g. 0),
          inverse_transform = (\<lambda>x. 100 + 600 * x), format_2f = (\<lambda>x. [])\<rparr>
        :: (real, real, real, real, nat) library) (\<lparr>net_params = \<lparr>lstm = 1, linear_layer = 1\<rparr>, grad = 0, opt = 0,
          grad_enabled = True, trace = []\<rparr> :: (real, real, real, nat) session) [[1]] [2] [[2]] [3] =
       Inr (map (inverse_transform (\<lparr>lstm_cell = (\<lambda>w x h. w * x + h), lstm_init = 0,
          linear_forward = (\<lambda>v h. v * h), backward = (\<lambda>n X Y g. g + 1),
          adam_step = (\<lambda>n g t. (n, Suc t)), zero_grad = (\<lambda>g. 0),
          inverse_transform = (\<lambda>x. 100 + 600 * x), format_2f = (\<lambda>x. [])\<rparr>
        :: (real, real, real, real, nat) library)) p, map (inverse_transform (\<lparr>lstm_cell = (\<lambda>w x h. w * x + h), lstm_init = 0,
          linear_forward = (\<lambda>v h. v * h), backward = (\<lambda>n X Y g. g + 1),
          adam_step = (\<lambda>n g t. (n, Suc t)), zero_grad = (\<lambda>g. 0),
          inverse_transform = (\<lambda>x. 100 + 600 * x), format_2f = (\<lambda>x. [])\<rparr>
        :: (real, real, real, real, nat) library)) q, s') \<and>
     trace s' = trace (\<lparr>net_params = \<lparr>lstm = 1, linear_layer = 1\<rparr>, grad = 0, opt = 0,
          grad_enabled = True, trace = []\<rparr> :: (real, real, real, nat) session) @
       [Forward False [[1]] p, Forward False [[2]] q,
        Print (''Train Score: '' @
          format_2f (\<lparr>lstm_cell = (\<lambda>w x h. w * x + h), lstm_init = 0,
          linear_forward = (\<lambda>v h. v * h), backward = (\<lambda>n X Y g. g + 1),
          adam_step = (\<lambda>n g t. (n, Suc t)), zero_grad = (\<lambda>g. 0),
          inverse_transform = (\<lambda>x. 100 + 600 * x), format_2f = (\<lambda>x. [])\<rparr>
        :: (real, real, real, real, nat) library) (rmse_spec (map (inverse_transform (\<lparr>lstm_cell = (\<lambda>w x h. w * x + h), lstm_init = 0,
          linear_forward = (\<lambda>v h. v * h), backward = (\<lambda>n X Y g. g + 1),
          adam_step = (\<lambda>n g t. (n, Suc t)), zero_grad = (\<lambda>g. 0),
          inverse_transform = (\<lambda>x. 100 + 600 * x), format_2f = (\<lambda>x. [])\<rparr>
        :: (real, real, real, real, nat) library)) p)
                           (map (inverse_transform (\<lparr>lstm_cell = (\<lambda>w x h. w * x + h), lstm_init = 0,
          linear_forward = (\<lambda>v h. v * h), backward = (\<lambda>n X Y g. g + 1),
          adam_step = (\<lambda>n g t. (n, Suc t)), zero_grad = (\<lambda>g. 0),
          inverse_transform = (\<lambda>x. 100 + 600 * x), format_2f = (\<lambda>x. [])\<rparr>
        :: (real, real, real, real, nat) library)) [2])) @ '' RMSE''),
        Print (''Test Score: '' @
          format_2f (\<lparr>lstm_cell = (\<lambda>w x h. w * x + h), lstm_init = 0,
          linear_forward = (\<lambda>v h. v * h), backward = (\<lambda>n X Y g. g + 1),
          adam_step = (\<lambda>n g t. (n, Suc t)), zero_grad = (\<lambda>g. 0),
          inverse_transform = (\<lambda>x. 100 + 600 * x), format_2f = (\<lambda>x. [])\<rparr>
        :: (real, real, real, real, nat) library) (rmse_spec (map (inverse_transform (\<lparr>lstm_cell = (\<lambda>w x h. w * x + h), lstm_init = 0,
          linear_forward = (\<lambda>v h. v * h), backward = (\<lambda>n X Y g. g + 1),
          adam_step = (\<lambda>n g t. (n, Suc t)), zero_grad = (\<lambda>g. 0),
          inverse_transform = (\<lambda>x. 100 + 600 * x), format_2f = (\<lambda>x. [])\<rparr>
        :: (real, real, real, real, nat) library)) q)
                           (map (inverse_transform (\<lparr>lstm_cell = (\<lambda>w x h. w * x + h), lstm_init = 0,
          linear_forward = (\<lambda>v h. v * h), backward = (\<lambda>n X Y g. g + 1),
          adam_step = (\<lambda>n g t. (n, Suc t)), zero_grad = (\<lambda>g. 0),
          inverse_transform = (\<lambda>x. 100 + 600 * x), format_2f = (\<lambda>x. [])\<rparr>
        :: (real, real, real, real, nat) library)) [3])) @ '' RMSE'')])"
proof -
  have h1: "[] \<notin> set [[1 :: real]]" by simp
  have h2: "[] \<notin> set [[2 :: real]]" by simp
  have h3: "length [[1 :: real]] = length [2 :: real]" by simp
  have h4: "length [[2 :: real]] = length [3 :: real]" by simp
  have h5: "[[1 :: real]] \<noteq> []" by simp
  have h6: "[[2 :: real]] \<noteq> []" by simp
  from h1 h2 h3 h4 h5 h6 evaluate_prints_rmse [OF h1 h2 h3 h4 h5 h6] show ?thesis
    by (intro conjI)
qed

subsection \<open>The scaler's round trip\<close>

text \<open>
  C3. For a scaler fit with observed minimum \<open>mn\<close> and maximum \<open>mx\<close>, \<open>mn < mx\<close>,
  inverting the normalization of a value returns the value: for every \<open>x\<close>, hence for
  every \<open>x\<close> of the fit range, \<open>scaler_inverse (normalize x) = x\<close>, exactly, on real
  numbers. With minimum 100 and maximum 700, 112 is normalized to 0.02, and 0.02 is
  mapped back to 112.
\<close>

theorem scaler_round_trip:
  "(mn < mx \<longrightarrow> (\<forall>x. scaler_inverse mn mx (normalize mn mx x) = x)) \<and>
   normalize 100 700 112 = 0.02 \<and> scaler_inverse 100 700 0.02 = 112"
  by (simp add: normalize_def scaler_inverse_def)

theorem scaler_round_trip_witness:
  "(100 :: real) < 700 \<and> scaler_inverse 100 700 (normalize 100 700 112) = 112"
proof -
  have h: "(100 :: real) < 700" by simp
  from scaler_round_trip [of 100 700] h
  have "scaler_inverse 100 700 (normalize 100 700 112) = 112" by blast
  with h show ?thesis by simp
qed

subsection \<open>A small session, run\<close>

text \<open>
  With a toy cell and a toy optimizer, one training step changes the parameters, and the
  prediction block does not.
\<close>

lemma predict_example:
  "predict
     (\<lparr>lstm_cell = (\<lambda>w x h. w * x + h), lstm_init = 0,
       linear_forward = (\<lambda>v h. v * h), backward = (\<lambda>n X Y g. g + 1),
       adam_step = (\<lambda>n g t. (n, Suc t)), zero_grad = (\<lambda>g. 0),
       inverse_transform = (\<lambda>x. 100 + 600 * x), format_2f = (\<lambda>x. [])\<rparr>
        :: (real, real, real, real, nat) library)
     (\<lparr>net_params = \<lparr>lstm = 2, linear_layer = 3\<rparr>, grad = 0, opt = 0,
       grad_enabled = True, trace = []\<rparr> :: (real, real, real, nat) session)
     [[1, 1]] [[2]] =
   Inr ([12], [12],
        \<lparr>net_params = \<lparr>lstm = 2, linear_layer = 3\<rparr>, grad = 0, opt = 0,
         grad_enabled = True,
         trace = [Forward False [[1, 1]] [12], Forward False [[2]] [12]]\<rparr>)"
  by (simp add: predict_def net_call_def forward_def lstm_layer_def Let_def)

lemma train_step_example:
  "train_step
     (\<lparr>lstm_cell = (\<lambda>w x h. w * x + h), lstm_init = 0,
       linear_forward = (\<lambda>v h. v * h), backward = (\<lambda>n X Y g. g + 1),
       adam_step = (\<lambda>n g t. (n\<lparr>lstm := lstm n - g\<rparr>, Suc t)), zero_grad = (\<lambda>g. 0),
       inverse_transform = (\<lambda>x. 100 + 600 * x), format_2f = (\<lambda>x. [])\<rparr>
        :: (real, real, real, real, nat) library)
     [[1, 1]] [10]
     (\<lparr>net_params = \<lparr>lstm = 2, linear_layer = 3\<rparr>, grad = 0, opt = 0,
       grad_enabled = True, trace = []\<rparr> :: (real, real, real, nat) session) =
   Inr \<lparr>net_params = \<lparr>lstm = 1, linear_layer = 3\<rparr>, grad = 0, opt = 1,
         grad_enabled = True,
         trace = [Forward True [[1, 1]] [12], Loss 4, SetDescription 4,
                  Backward, OptStep, ZeroGrad]\<rparr>"
  by (simp add: train_step_def net_call_def forward_def lstm_layer_def Let_def
        sum_squared_error_def broadcast_sub_def)


end
